theory Spec2Isabelle
  imports Main
begin

section \<open>JavaScript strings and truthiness\<close>

text \<open>
  Strings are lists of 8-bit code units. A request field that is absent from the JSON body
  (\<^verbatim>\<open>undefined\<close> or \<^verbatim>\<open>null\<close>) is \<open>None\<close>. A string is truthy when it is present and not empty.
\<close>

definition truthy :: "string option \<Rightarrow> bool" where
  "truthy s = (case s of None \<Rightarrow> False | Some v \<Rightarrow> v \<noteq> [])"

definition strv :: "string option \<Rightarrow> string" where
  "strv s = (case s of None \<Rightarrow> [] | Some v \<Rightarrow> v)"

text \<open>The regular expression classes \<^verbatim>\<open>\s\<close>, \<^verbatim>\<open>\d\<close>, \<^verbatim>\<open>[A-Z]\<close> and \<^verbatim>\<open>[a-z]\<close>, by code unit.\<close>

definition is_space :: "char \<Rightarrow> bool" where
  "is_space c = (let n = (of_char c :: nat) in (9 \<le> n \<and> n \<le> 13) \<or> n = 32 \<or> n = 160)"

definition is_digit :: "char \<Rightarrow> bool" where
  "is_digit c = (let n = (of_char c :: nat) in 48 \<le> n \<and> n \<le> 57)"

definition is_upper :: "char \<Rightarrow> bool" where
  "is_upper c = (let n = (of_char c :: nat) in 65 \<le> n \<and> n \<le> 90)"

definition is_lower :: "char \<Rightarrow> bool" where
  "is_lower c = (let n = (of_char c :: nat) in 97 \<le> n \<and> n \<le> 122)"

text \<open>\<^verbatim>\<open>String.prototype.trim\<close>: white space is dropped at both ends.\<close>

definition trim :: "string \<Rightarrow> string" where
  "trim s = rev (dropWhile is_space (rev (dropWhile is_space s)))"

section \<open>secure-auth: input validation\<close>

text \<open>
  \<^verbatim>\<open>validateEmail\<close> tests \<^verbatim>\<open>/^[^\s@]+@[^\s@]+\.[^\s@]+$/\<close> and a length of at most 254.
  A string matches the expression when it has one \<^verbatim>\<open>@\<close>, no white space, a non-empty part
  before the \<^verbatim>\<open>@\<close>, and after it a part holding a dot that is neither its first nor its last
  character.
\<close>

definition email_char :: "char \<Rightarrow> bool" where
  "email_char c = (\<not> is_space c \<and> c \<noteq> CHR ''@'')"

definition emailRegex :: "string \<Rightarrow> bool" where
  "emailRegex s =
     (let local_part = takeWhile (\<lambda>c. c \<noteq> CHR ''@'') s;
          rest = dropWhile (\<lambda>c. c \<noteq> CHR ''@'') s
      in case rest of
           [] \<Rightarrow> False
         | _ # domain_part \<Rightarrow>
             local_part \<noteq> [] \<and> list_all email_char local_part \<and>
             list_all email_char domain_part \<and>
             CHR ''.'' \<in> set (butlast (tl domain_part)))"

definition validateEmail :: "string \<Rightarrow> bool" where
  "validateEmail email = (emailRegex email \<and> length email \<le> 254)"

text \<open>\<^verbatim>\<open>validatePassword\<close>: the four tests of the source, under its names.\<close>

definition minLength :: "string \<Rightarrow> bool" where
  "minLength password = (length password \<ge> 8)"

definition hasUpper :: "string \<Rightarrow> bool" where
  "hasUpper password = list_ex is_upper password"

definition hasLower :: "string \<Rightarrow> bool" where
  "hasLower password = list_ex is_lower password"

definition hasNumber :: "string \<Rightarrow> bool" where
  "hasNumber password = list_ex is_digit password"

definition validatePassword :: "string \<Rightarrow> bool" where
  "validatePassword password =
     (minLength password \<and> hasUpper password \<and> hasLower password \<and> hasNumber password)"

text \<open>\<^verbatim>\<open>validatePhoneNumber\<close>: every non-digit is removed, 10 to 15 digits must remain.\<close>

definition validatePhoneNumber :: "string \<Rightarrow> bool" where
  "validatePhoneNumber phone =
     (let cleaned = filter is_digit phone in length cleaned \<ge> 10 \<and> length cleaned \<le> 15)"

section \<open>secure-auth: requests, responses and collaborators\<close>

text \<open>
  The handler reads the request method, four headers and the JSON body. The body is not
  JSON (\<^verbatim>\<open>req.json()\<close> throws), is \<^verbatim>\<open>null\<close> (destructuring it throws), or is a value whose
  five fields are read; a field that is missing is \<open>None\<close>.
\<close>

record auth_request =
  action :: "string option"
  email :: "string option"
  password :: "string option"
  phoneNumber :: "string option"
  timezone :: "string option"

datatype parsed_body = NotJson | NullBody | ObjectBody auth_request

record request =
  req_method :: string
  x_forwarded_for :: "string option"
  x_real_ip :: "string option"
  cf_connecting_ip :: "string option"
  origin :: "string option"
  json_body :: parsed_body

text \<open>Timestamps are instants in milliseconds since the epoch.\<close>

type_synonym timestamp = int

text \<open>What the \<^verbatim>\<open>check_rate_limit\<close> procedure answers, and a row of \<^verbatim>\<open>account_lockouts\<close>.\<close>

record rate_limit_check =
  allowed :: bool
  attempts :: int
  max_attempts :: int
  blocked_until :: "timestamp option"

record lockout_row =
  locked_until :: "timestamp option"
  failed_attempts :: int

datatype jval = JStr string | JBool bool | JTimestamp timestamp | JNull

record security_event =
  event_type :: string
  event_user_id :: "string option"
  event_identifier :: string
  details :: "(string \<times> jval) list"
  severity :: string

record signup_args =
  su_email :: string
  su_password :: string
  emailRedirectTo :: string
  su_data :: "(string \<times> string) list"

text \<open>What sign-up resolves with: the id of the created user, when there is one.\<close>

record signup_data =
  new_user :: "string option"
  new_session :: "string option"

text \<open>
  \<^verbatim>\<open>auth.signUp\<close> resolves with an error, resolves with the created account, or throws.
\<close>

datatype signup_outcome = SignUpThrows | SignUpError string | SignUpData signup_data

text \<open>
  The collaborators of one request. The storage client resolves every query with a pair of
  data and error, the way the source destructures them: \<open>check_rate_limit\<close> gives the data
  of the procedure call (\<open>None\<close> when the call failed), \<open>account_lockouts\<close> the data of the
  \<^verbatim>\<open>.single()\<close> lookup by email, and \<open>insert_security_event\<close> the error of the append
  (\<open>None\<close> when the event was written).
\<close>

record env =
  SUPABASE_URL :: "string option"
  SUPABASE_SERVICE_ROLE_KEY :: "string option"
  now :: timestamp
  check_rate_limit :: "string \<Rightarrow> string \<Rightarrow> nat \<Rightarrow> nat \<Rightarrow> rate_limit_check option"
  account_lockouts :: "string \<Rightarrow> lockout_row option"
  insert_security_event :: "security_event \<Rightarrow> string option"
  auth_signUp :: "signup_args \<Rightarrow> signup_outcome"

text \<open>The calls the handler makes, in order; an append is recorded with its outcome.\<close>

datatype event =
    RpcCheckRateLimit string string nat nat
  | InsertSecurityEvent security_event "string option"
  | SelectAccountLockout string
  | AuthSignUp signup_args

datatype body =
    PlainText string
  | ErrorJson string
  | RateLimitedJson string "timestamp option"
  | LockedJson string timestamp
  | ValidationPassedJson bool string int int
  | SignupJson signup_data int int

record response =
  status :: nat
  body :: body

datatype js_exception = ClientConfigError | TypeError | Rejected

definition json_response :: "nat \<Rightarrow> body \<Rightarrow> response" where
  "json_response st b = \<lparr>status = st, body = b\<rparr>"

section \<open>secure-auth: the handler\<close>

definition getClientIP :: "request \<Rightarrow> string" where
  "getClientIP req =
     (if truthy (x_forwarded_for req)
      then trim (takeWhile (\<lambda>c. c \<noteq> CHR '','') (strv (x_forwarded_for req)))
      else if truthy (cf_connecting_ip req) then strv (cf_connecting_ip req)
      else if truthy (x_real_ip req) then strv (x_real_ip req)
      else ''unknown'')"

text \<open>Lines 84 to 122: the first failing check answers 400; \<open>None\<close> when all pass.\<close>

definition input_validation :: "auth_request \<Rightarrow> response option" where
  "input_validation d =
     (if \<not> truthy (action d) \<or> strv (action d) \<notin> set [''signin'', ''signup'']
      then Some (json_response 400 (ErrorJson ''Invalid action. Must be signin or signup.''))
      else if \<not> truthy (email d) \<or> \<not> validateEmail (strv (email d))
      then Some (json_response 400 (ErrorJson ''Valid email address is required''))
      else if \<not> truthy (password d)
      then Some (json_response 400 (ErrorJson ''Password is required''))
      else if strv (action d) = ''signup'' \<and> \<not> validatePassword (strv (password d))
      then Some (json_response 400 (ErrorJson
        ''Password must be at least 8 characters long and contain uppercase, lowercase, and at least one number''))
      else if truthy (phoneNumber d) \<and> \<not> validatePhoneNumber (strv (phoneNumber d))
      then Some (json_response 400 (ErrorJson ''Invalid phone number format''))
      else None)"

definition rateLimitIdentifier :: "request \<Rightarrow> auth_request \<Rightarrow> string" where
  "rateLimitIdentifier req d = getClientIP req @ '':'' @ strv (email d)"

definition endpoint :: "auth_request \<Rightarrow> string" where
  "endpoint d = (if strv (action d) = ''signin'' then ''auth_signin'' else ''auth_signup'')"

definition p_max_attempts :: "auth_request \<Rightarrow> nat" where
  "p_max_attempts d = (if strv (action d) = ''signin'' then 5 else 3)"

definition p_window_minutes :: nat where
  "p_window_minutes = 15"

definition rate_limit_event :: "request \<Rightarrow> auth_request \<Rightarrow> rate_limit_check \<Rightarrow> security_event" where
  "rate_limit_event req d rl =
     \<lparr>event_type = ''rate_limit_exceeded'',
      event_user_id = None,
      event_identifier = rateLimitIdentifier req d,
      details = [(''endpoint'', JStr (endpoint d)), (''ip'', JStr (getClientIP req)),
                 (''email'', JStr (strv (email d))),
                 (''blocked_until'', case blocked_until rl of None \<Rightarrow> JNull | Some t \<Rightarrow> JTimestamp t)],
      severity = ''medium''\<rparr>"

definition signup_event :: "request \<Rightarrow> auth_request \<Rightarrow> string \<Rightarrow> security_event" where
  "signup_event req d uid =
     \<lparr>event_type = ''user_signup'',
      event_user_id = Some uid,
      event_identifier = strv (email d),
      details = [(''ip'', JStr (getClientIP req)), (''has_phone'', JBool (truthy (phoneNumber d))),
                 (''timezone'', JStr (if truthy (timezone d) then strv (timezone d) else ''UTC''))],
      severity = ''low''\<rparr>"

definition signup_call :: "request \<Rightarrow> auth_request \<Rightarrow> signup_args" where
  "signup_call req d =
     \<lparr>su_email = strv (email d),
      su_password = strv (password d),
      emailRedirectTo =
        (if truthy (origin req) then strv (origin req) else ''https://journalbytext.com'') @ ''/'',
      su_data =
        (if truthy (phoneNumber d) then [(''phone_number'', strv (phoneNumber d))] else []) @
        (if truthy (timezone d) then [(''timezone'', strv (timezone d))] else [])\<rparr>"

text \<open>
  Lines 192 to 242, the sign-up branch: the account is created by the identity provider; a
  created user is logged, and the answer carries the rate-limit counters.
\<close>

definition signup_branch ::
  "env \<Rightarrow> request \<Rightarrow> auth_request \<Rightarrow> rate_limit_check \<Rightarrow> event list \<times> (js_exception + response)" where
  "signup_branch e req d rl =
     (let call = signup_call req d in
      case auth_signUp e call of
        SignUpThrows \<Rightarrow> ([AuthSignUp call], Inl Rejected)
      | SignUpError msg \<Rightarrow> ([AuthSignUp call], Inr (json_response 400 (ErrorJson msg)))
      | SignUpData dat \<Rightarrow>
          (let logged =
                 (case new_user dat of
                    Some uid \<Rightarrow>
                      (let ev = signup_event req d uid
                       in [InsertSecurityEvent ev (insert_security_event e ev)])
                  | None \<Rightarrow> [])
           in (AuthSignUp call # logged,
               Inr (json_response 200 (SignupJson dat (attempts rl) (max_attempts rl))))))"

text \<open>Lines 160 to 191, the sign-in branch. \<open>active_lock\<close> is the test of line 168: the row
  has a \<^verbatim>\<open>locked_until\<close> and it is later than the current instant.\<close>

definition active_lock :: "env \<Rightarrow> lockout_row option \<Rightarrow> timestamp option" where
  "active_lock e lockoutData =
     (case lockoutData of
        None \<Rightarrow> None
      | Some row \<Rightarrow>
          (case locked_until row of
             None \<Rightarrow> None
           | Some t \<Rightarrow> if t > now e then Some t else None))"

definition signin_branch ::
  "env \<Rightarrow> auth_request \<Rightarrow> rate_limit_check \<Rightarrow> event list \<times> (js_exception + response)" where
  "signin_branch e d rl =
     (let lockoutData = account_lockouts e (strv (email d)) in
      case active_lock e lockoutData of
        Some t \<Rightarrow>
          ([SelectAccountLockout (strv (email d))],
           Inr (json_response 423 (LockedJson
             ''Account temporarily locked due to multiple failed login attempts'' t)))
      | None \<Rightarrow>
          ([SelectAccountLockout (strv (email d))],
           Inr (json_response 200 (ValidationPassedJson True ''Security validation passed''
             (attempts rl) (max_attempts rl)))))"

text \<open>
  Lines 124 to 158, the rate-limit gate. When the procedure call gave no data, reading
  \<^verbatim>\<open>rateLimitCheck.allowed\<close> throws.
\<close>

definition rate_limit_gate ::
  "env \<Rightarrow> request \<Rightarrow> auth_request \<Rightarrow> event list \<times> (js_exception + response)" where
  "rate_limit_gate e req d =
     (let rpc = RpcCheckRateLimit (rateLimitIdentifier req d) (endpoint d) (p_max_attempts d)
                  p_window_minutes
      in case check_rate_limit e (rateLimitIdentifier req d) (endpoint d) (p_max_attempts d)
                p_window_minutes of
           None \<Rightarrow> ([rpc], Inl TypeError)
         | Some rl \<Rightarrow>
             if \<not> allowed rl
             then (let ev = rate_limit_event req d rl
                   in ([rpc, InsertSecurityEvent ev (insert_security_event e ev)],
                       Inr (json_response 429 (RateLimitedJson
                         ''Too many attempts. Please try again later.'' (blocked_until rl)))))
             else (let (evs, r) = (if strv (action d) = ''signin'' then signin_branch e d rl
                                   else signup_branch e req d rl)
                   in (rpc # evs, r)))"

text \<open>The body of the \<^verbatim>\<open>try\<close> block: the client is created, the body parsed and validated.\<close>

definition serve_try :: "env \<Rightarrow> request \<Rightarrow> event list \<times> (js_exception + response)" where
  "serve_try e req =
     (if \<not> truthy (SUPABASE_URL e) \<or> \<not> truthy (SUPABASE_SERVICE_ROLE_KEY e)
      then ([], Inl ClientConfigError)
      else case json_body req of
             NotJson \<Rightarrow> ([], Inr (json_response 400 (ErrorJson ''Invalid JSON in request body'')))
           | NullBody \<Rightarrow> ([], Inl TypeError)
           | ObjectBody d \<Rightarrow>
               (case input_validation d of
                  Some r \<Rightarrow> ([], Inr r)
                | None \<Rightarrow> rate_limit_gate e req d))"

text \<open>The handler: the preflight answer, and the catch-all that turns an exception into 500.\<close>

definition serve :: "env \<Rightarrow> request \<Rightarrow> event list \<times> response" where
  "serve e req =
     (if req_method req = ''OPTIONS'' then ([], json_response 200 (PlainText ''ok''))
      else case serve_try e req of
             (evs, Inl ex) \<Rightarrow> (evs, json_response 500 (ErrorJson ''Internal server error''))
           | (evs, Inr r) \<Rightarrow> (evs, r))"

section \<open>useAuth: the client orchestrator\<close>

text \<open>
  The hook holds the user, the session and a loading flag. Every call of a collaborator
  may throw as well as resolve; a thrown value carries its message when it is an
  \<^verbatim>\<open>Error\<close>.
\<close>

record session_data =
  session_user :: string
  access_token :: string

record auth_state =
  user :: "string option"
  session :: "session_data option"
  loading :: bool

record validation_data =
  validation_passed :: bool

datatype invoke_outcome =
    InvokeThrows "string option"
  | InvokeResult "validation_data option" "string option"

datatype password_outcome =
    PasswordThrows "string option"
  | PasswordError string
  | PasswordData session_data

datatype signout_outcome = SignOutThrows "string option" | SignOutResult "string option"

record client_env =
  invoke_secure_auth :: "auth_request \<Rightarrow> invoke_outcome"
  auth_signInWithPassword :: "string \<Rightarrow> string \<Rightarrow> password_outcome"
  auth_signOut :: signout_outcome

datatype client_event =
    InvokeSecureAuth auth_request
  | SignInWithPassword string string
  | InvokeTrackLoginFailure string string
  | SetSession "session_data option"
  | SetUser "string option"
  | AuthSignOut

record signin_result =
  res_data :: "session_data option"
  res_error :: "string option"

record signout_result =
  so_error :: "string option"

definition clearAuthState :: "auth_state \<Rightarrow> client_event list \<times> auth_state" where
  "clearAuthState st = ([SetSession None, SetUser None], st\<lparr>session := None, user := None\<rparr>)"

definition signin_body :: "string \<Rightarrow> string \<Rightarrow> auth_request" where
  "signin_body em pw =
     \<lparr>action = Some ''signin'', email = Some em, password = Some pw,
      phoneNumber = None, timezone = None\<rparr>"

definition caught :: "string option \<Rightarrow> signin_result" where
  "caught thrown =
     \<lparr>res_data = None,
      res_error = Some (case thrown of Some msg \<Rightarrow> msg | None \<Rightarrow> ''Unknown error'')\<rparr>"

definition passed :: "validation_data option \<Rightarrow> bool" where
  "passed validationData =
     (case validationData of None \<Rightarrow> False | Some v \<Rightarrow> validation_passed v)"

text \<open>
  \<^verbatim>\<open>signIn\<close>: the gateway is asked first; the credentials go to the identity provider only
  when it reported no error and \<^verbatim>\<open>validation_passed\<close>. A refused credential is reported to
  \<^verbatim>\<open>track-login-failure\<close>, whose own failure is dropped.
\<close>

definition signIn :: "client_env \<Rightarrow> string \<Rightarrow> string \<Rightarrow> client_event list \<times> signin_result" where
  "signIn c em pw =
     (case invoke_secure_auth c (signin_body em pw) of
        InvokeThrows thrown \<Rightarrow> ([InvokeSecureAuth (signin_body em pw)], caught thrown)
      | InvokeResult validationData validationError \<Rightarrow>
          (case validationError of
             Some err \<Rightarrow>
               ([InvokeSecureAuth (signin_body em pw)], \<lparr>res_data = None, res_error = Some err\<rparr>)
           | None \<Rightarrow>
               if \<not> passed validationData
               then ([InvokeSecureAuth (signin_body em pw)],
                     \<lparr>res_data = None, res_error = Some ''Security validation failed''\<rparr>)
               else
                 (case auth_signInWithPassword c em pw of
                    PasswordThrows thrown \<Rightarrow>
                      ([InvokeSecureAuth (signin_body em pw), SignInWithPassword em pw],
                       caught thrown)
                  | PasswordError msg \<Rightarrow>
                      ([InvokeSecureAuth (signin_body em pw), SignInWithPassword em pw,
                        InvokeTrackLoginFailure em msg],
                       \<lparr>res_data = None, res_error = Some msg\<rparr>)
                  | PasswordData authData \<Rightarrow>
                      ([InvokeSecureAuth (signin_body em pw), SignInWithPassword em pw],
                       \<lparr>res_data = Some authData, res_error = None\<rparr>))))"

text \<open>
  \<^verbatim>\<open>signOut\<close>: the local state is cleared, then the remote call is made; whatever it does,
  the answer is \<^verbatim>\<open>{ error: null }\<close>.
\<close>

definition signOut :: "client_env \<Rightarrow> auth_state \<Rightarrow> client_event list \<times> auth_state \<times> signout_result" where
  "signOut c st =
     (let (cleared_events, st1) = clearAuthState st in
      case auth_signOut c of
        SignOutThrows thrown \<Rightarrow> (cleared_events @ [AuthSignOut], st1, \<lparr>so_error = None\<rparr>)
      | SignOutResult err \<Rightarrow> (cleared_events @ [AuthSignOut], st1, \<lparr>so_error = None\<rparr>))"

section \<open>journalService: rows, entries and collaborators\<close>

text \<open>
  A row of \<^verbatim>\<open>journal_entries\<close>, and the row as the fetch query returns it, with the joined
  \<^verbatim>\<open>journal_photos\<close>. \<open>Entry\<close> is what the service hands to the interface.
\<close>

record photo_row =
  photo_id :: string
  file_path :: string
  file_name :: string

record journal_entry =
  row_id :: string
  row_user_id :: string
  row_content :: string
  row_title :: string
  row_source :: string
  row_created_at :: timestamp
  row_entry_date :: string
  row_tags :: "string list option"

record fetched_entry = journal_entry +
  journal_photos :: "photo_row list option"

record Entry =
  entry_id :: string
  content :: string
  title :: string
  source :: string
  timestamp :: timestamp
  entry_date :: string
  user_id :: string
  tags :: "string list"
  photos :: "string list"

text \<open>The two tables and the bucket the service writes to.\<close>

record photo_store =
  journal_photo_rows :: "(string \<times> string) list"
  storage_objects :: "string list"

record store =
  journal_entries :: "journal_entry list"
  photo_part :: photo_store

datatype journal_error =
    NotAuthenticated
  | ValidationError string
  | CipherError
  | RangeError
  | StorageError string
  | UploadError string

text \<open>
  The collaborators of the service. The fetch query resolves with an error or with the
  rows of the user. \<open>encrypt\<close> and \<open>decrypt\<close> give \<open>None\<close> when they throw; the
  validators and the photo helpers give the message they throw, if any, and the photo
  helpers work on the photo table and the bucket. The clock, the offset of a named time
  zone from UTC in minutes at the current instant (\<open>None\<close> for a name the runtime does not
  know) and the offset of the runtime's own zone stand for the platform's \<^verbatim>\<open>Date\<close>;
  \<open>url_pathname\<close> stands for its \<^verbatim>\<open>URL\<close> (\<open>None\<close> when the constructor throws).
\<close>

record journal_env =
  select_journal_entries :: "string \<Rightarrow> string + fetched_entry list"
  decrypt :: "string \<Rightarrow> string \<Rightarrow> string option"
  encrypt :: "string \<Rightarrow> string \<Rightarrow> string option"
  getPublicUrl :: "string \<Rightarrow> string"
  validateEntryContent :: "string \<Rightarrow> string option"
  validatePhotos :: "string list \<Rightarrow> string option"
  validateTags :: "string list \<Rightarrow> string + string list"
  checkPhotoLimit :: "string \<Rightarrow> string list \<Rightarrow> photo_store \<Rightarrow> string option"
  uploadPhotos :: "string list \<Rightarrow> string \<Rightarrow> string \<Rightarrow> photo_store \<Rightarrow> photo_store \<times> string option"
  profile_timezone :: "string \<Rightarrow> string option"
  clock :: timestamp
  zone_offset :: "string \<Rightarrow> int option"
  runtime_offset :: int
  inserted_id :: string
  insert_error :: "string option"
  update_error :: "string option"
  url_pathname :: "string \<Rightarrow> string option"
  storage_remove_fails :: "string \<Rightarrow> bool"
  photo_delete_fails :: "string \<Rightarrow> string \<Rightarrow> bool"

datatype journal_event =
    SelectJournalEntries string
  | Decrypt string string
  | GetPublicUrl string

section \<open>journalService: fetchJournalEntries\<close>

definition photo_urls :: "journal_env \<Rightarrow> fetched_entry \<Rightarrow> journal_event list \<times> string list" where
  "photo_urls j entry =
     (case journal_photos entry of
        None \<Rightarrow> ([], [])
      | Some ps \<Rightarrow>
          (map (\<lambda>photo. GetPublicUrl (file_path photo)) ps,
           map (\<lambda>photo. getPublicUrl j (file_path photo)) ps))"

text \<open>The object both branches of the callback build, for a given content and title.\<close>

definition to_entry :: "journal_env \<Rightarrow> fetched_entry \<Rightarrow> string \<Rightarrow> string \<Rightarrow> Entry" where
  "to_entry j entry c t =
     \<lparr>entry_id = row_id entry, content = c, title = t, source = row_source entry,
      timestamp = row_created_at entry, entry_date = row_entry_date entry,
      user_id = row_user_id entry,
      tags = (case row_tags entry of None \<Rightarrow> [] | Some ts \<Rightarrow> ts),
      photos = snd (photo_urls j entry)\<rparr>"

text \<open>
  The callback of lines 39 to 92. The content is decrypted first, then the title; when
  either throws, the \<^verbatim>\<open>catch\<close> block builds the entry from the stored content and title.
\<close>

definition process_entry ::
  "journal_env \<Rightarrow> string \<Rightarrow> fetched_entry \<Rightarrow> journal_event list \<times> Entry option" where
  "process_entry j userId entry =
     (case decrypt j (row_content entry) userId of
        None \<Rightarrow>
          (Decrypt (row_content entry) userId # fst (photo_urls j entry),
           Some (to_entry j entry (row_content entry) (row_title entry)))
      | Some decryptedContent \<Rightarrow>
          (case decrypt j (row_title entry) userId of
             None \<Rightarrow>
               (Decrypt (row_content entry) userId # Decrypt (row_title entry) userId #
                  fst (photo_urls j entry),
                Some (to_entry j entry (row_content entry) (row_title entry)))
           | Some decryptedTitle \<Rightarrow>
               (Decrypt (row_content entry) userId # Decrypt (row_title entry) userId #
                  fst (photo_urls j entry),
                Some (to_entry j entry decryptedContent decryptedTitle))))"

text \<open>
  \<^verbatim>\<open>fetchJournalEntries\<close>. The calls of the collaborators are listed entry by entry (the
  source starts the callbacks of all entries together). A failed query is thrown on.
\<close>

definition fetchJournalEntries ::
  "journal_env \<Rightarrow> string \<Rightarrow> journal_event list \<times> (journal_error + Entry list)" where
  "fetchJournalEntries j userId =
     (if userId = [] then ([], Inr [])
      else case select_journal_entries j userId of
             Inl err \<Rightarrow> ([SelectJournalEntries userId], Inl (StorageError err))
           | Inr data \<Rightarrow>
               (let processedEntries = map (process_entry j userId) data;
                    validEntries = List.map_filter snd processedEntries
                in (SelectJournalEntries userId # concat (map fst processedEntries),
                    Inr validEntries)))"

section \<open>journalService: the entry date of createJournalEntry\<close>

text \<open>
  The platform's \<^verbatim>\<open>Date\<close>. \<open>toLocaleString\<close> gives the wall-clock reading of an instant in a
  zone, to the second, as seconds since 1970-01-01T00:00:00 on that wall clock.
  \<open>parseLocal\<close> is \<^verbatim>\<open>new Date(string)\<close> on such a reading: it is taken as a time of the
  runtime's own zone. \<open>toISODate\<close> is \<^verbatim>\<open>toISOString().split('T')[0]\<close>: the UTC calendar date
  of an instant, from the count of days since the epoch.
\<close>

definition toLocaleString :: "int \<Rightarrow> timestamp \<Rightarrow> int" where
  "toLocaleString offset_minutes t = t div 1000 + offset_minutes * 60"

definition parseLocal :: "int \<Rightarrow> int \<Rightarrow> timestamp" where
  "parseLocal runtime_offset_minutes wall = (wall - runtime_offset_minutes * 60) * 1000"

definition civil_from_days :: "int \<Rightarrow> int \<times> int \<times> int" where
  "civil_from_days days =
     (let z = days + 719468;
          era = z div 146097;
          doe = z - era * 146097;
          yoe = (doe - doe div 1460 + doe div 36524 - doe div 146096) div 365;
          y = yoe + era * 400;
          doy = doe - (365 * yoe + yoe div 4 - yoe div 100);
          mp = (5 * doy + 2) div 153;
          d = doy - (153 * mp + 2) div 5 + 1;
          m = (if mp < 10 then mp + 3 else mp - 9)
      in (if m \<le> 2 then y + 1 else y, m, d))"

definition digit :: "int \<Rightarrow> char" where
  "digit n = ''0123456789'' ! nat (n mod 10)"

definition pad2 :: "int \<Rightarrow> string" where
  "pad2 n = [digit (n div 10), digit n]"

definition pad4 :: "int \<Rightarrow> string" where
  "pad4 n = [digit (n div 1000), digit (n div 100), digit (n div 10), digit n]"

definition pad6 :: "int \<Rightarrow> string" where
  "pad6 n = [digit (n div 100000), digit (n div 10000)] @ pad4 n"

definition toISODate :: "timestamp \<Rightarrow> string" where
  "toISODate t =
     (case civil_from_days (t div 86400000) of
        (y, m, d) \<Rightarrow>
          (if 0 \<le> y \<and> y \<le> 9999 then pad4 y
           else if y < 0 then ''-'' @ pad6 (- y) else ''+'' @ pad6 y) @
          ''-'' @ pad2 m @ ''-'' @ pad2 d)"

text \<open>
  Lines 140 to 145. \<open>userTimezone\<close> is the stored zone, or \<^verbatim>\<open>UTC\<close> when none is stored;
  \<open>entryDate\<close> is \<open>None\<close> when the runtime does not know the zone and \<^verbatim>\<open>toLocaleString\<close>
  throws.
\<close>

definition userTimezone :: "journal_env \<Rightarrow> string \<Rightarrow> string" where
  "userTimezone j userId =
     (if truthy (profile_timezone j userId) then strv (profile_timezone j userId) else ''UTC'')"

definition entryDate :: "journal_env \<Rightarrow> string \<Rightarrow> string option" where
  "entryDate j userId =
     (case zone_offset j (userTimezone j userId) of
        None \<Rightarrow> None
      | Some off \<Rightarrow>
          (let userDate = parseLocal (runtime_offset j) (toLocaleString off (clock j))
           in Some (toISODate userDate)))"

section \<open>journalService: createJournalEntry\<close>

record create_args =
  new_content :: string
  new_title :: string
  new_tags :: "string list"
  new_photos :: "string list"
  new_userId :: string

text \<open>
  The row is inserted with the encrypted content and title, the source \<^verbatim>\<open>web\<close>, the entry
  date and the validated tags; the database gives it its id and creation instant. Photos
  are uploaded afterwards.
\<close>

definition createJournalEntry ::
  "journal_env \<Rightarrow> create_args \<Rightarrow> store \<Rightarrow> store \<times> (journal_error + journal_entry)" where
  "createJournalEntry j a s =
     (if new_userId a = [] then (s, Inl NotAuthenticated)
      else case validateEntryContent j (new_content a) of
        Some msg \<Rightarrow> (s, Inl (ValidationError msg))
      | None \<Rightarrow>
      (case validatePhotos j (new_photos a) of
        Some msg \<Rightarrow> (s, Inl (ValidationError msg))
      | None \<Rightarrow>
      (case encrypt j (trim (new_content a)) (new_userId a) of
        None \<Rightarrow> (s, Inl CipherError)
      | Some encryptedContent \<Rightarrow>
      (case encrypt j (trim (new_title a)) (new_userId a) of
        None \<Rightarrow> (s, Inl CipherError)
      | Some encryptedTitle \<Rightarrow>
      (case entryDate j (new_userId a) of
        None \<Rightarrow> (s, Inl RangeError)
      | Some date \<Rightarrow>
      (case validateTags j (new_tags a) of
        Inl msg \<Rightarrow> (s, Inl (ValidationError msg))
      | Inr validTags \<Rightarrow>
      (case insert_error j of
        Some err \<Rightarrow> (s, Inl (StorageError err))
      | None \<Rightarrow>
          (let entry =
                 \<lparr>row_id = inserted_id j, row_user_id = new_userId a,
                  row_content = encryptedContent, row_title = encryptedTitle,
                  row_source = ''web'', row_created_at = clock j, row_entry_date = date,
                  row_tags = Some validTags\<rparr>;
               s1 = s\<lparr>journal_entries := journal_entries s @ [entry]\<rparr>
           in if new_photos a = [] then (s1, Inr entry)
              else (case uploadPhotos j (new_photos a) (row_id entry) (new_userId a)
                           (photo_part s1) of
                      (ps, Some msg) \<Rightarrow> (s1\<lparr>photo_part := ps\<rparr>, Inl (UploadError msg))
                    | (ps, None) \<Rightarrow> (s1\<lparr>photo_part := ps\<rparr>, Inr entry))))))))))"

section \<open>journalService: updateJournalEntry\<close>

record update_args =
  upd_id :: string
  upd_content :: string
  upd_tags :: "string list option"
  upd_photos :: "string list option"
  upd_removedPhotos :: "string list option"
  upd_userId :: string

text \<open>
  Lines 189 to 200: \<open>updateData\<close> holds the encrypted content and, when tags were given,
  the validated tags; it is written to the rows with the given id and user.
\<close>

definition apply_update ::
  "update_args \<Rightarrow> string \<Rightarrow> string list option \<Rightarrow> journal_entry \<Rightarrow> journal_entry" where
  "apply_update a encryptedContent newTags r =
     (if row_id r = upd_id a \<and> row_user_id r = upd_userId a
      then (case newTags of
              None \<Rightarrow> r\<lparr>row_content := encryptedContent\<rparr>
            | Some ts \<Rightarrow> r\<lparr>row_content := encryptedContent, row_tags := Some ts\<rparr>)
      else r)"

text \<open>
  Lines 204 to 236: each removed photo is handled in its own \<^verbatim>\<open>try\<close>; a failed removal from
  the bucket or from the table is logged and the loop goes on.
\<close>

definition fileName_of :: "string \<Rightarrow> string" where
  "fileName_of pathname = rev (takeWhile (\<lambda>c. c \<noteq> CHR ''/'') (rev pathname))"

definition remove_photo :: "journal_env \<Rightarrow> update_args \<Rightarrow> photo_store \<Rightarrow> string \<Rightarrow> photo_store" where
  "remove_photo j a ps photoUrl =
     (case url_pathname j photoUrl of
        None \<Rightarrow> ps
      | Some pathname \<Rightarrow>
          (let fileName = fileName_of pathname;
               path = upd_userId a @ ''/'' @ upd_id a @ ''/'' @ fileName;
               ps1 = (if storage_remove_fails j path then ps
                      else ps\<lparr>storage_objects := removeAll path (storage_objects ps)\<rparr>)
           in if photo_delete_fails j (upd_id a) fileName then ps1
              else ps1\<lparr>journal_photo_rows :=
                         filter (\<lambda>row. \<not> (fst row = upd_id a \<and> snd row = fileName))
                           (journal_photo_rows ps1)\<rparr>))"

definition remove_photos :: "journal_env \<Rightarrow> update_args \<Rightarrow> photo_store \<Rightarrow> photo_store" where
  "remove_photos j a ps =
     (case upd_removedPhotos a of
        None \<Rightarrow> ps
      | Some removed \<Rightarrow> foldl (remove_photo j a) ps removed)"

text \<open>Lines 238 to 243: the new photos are validated, counted and uploaded.\<close>

definition add_photos ::
  "journal_env \<Rightarrow> update_args \<Rightarrow> photo_store \<Rightarrow> photo_store \<times> journal_error option" where
  "add_photos j a ps =
     (case upd_photos a of
        None \<Rightarrow> (ps, None)
      | Some new \<Rightarrow>
          if new = [] then (ps, None)
          else (case validatePhotos j new of
                  Some msg \<Rightarrow> (ps, Some (ValidationError msg))
                | None \<Rightarrow>
                    (case checkPhotoLimit j (upd_id a) new ps of
                       Some msg \<Rightarrow> (ps, Some (ValidationError msg))
                     | None \<Rightarrow>
                         (case uploadPhotos j new (upd_id a) (upd_userId a) ps of
                            (ps', Some msg) \<Rightarrow> (ps', Some (UploadError msg))
                          | (ps', None) \<Rightarrow> (ps', None)))))"

text \<open>\<^verbatim>\<open>updateJournalEntry\<close>: the store afterwards, and the error thrown, if any.\<close>

definition updateJournalEntry ::
  "journal_env \<Rightarrow> update_args \<Rightarrow> store \<Rightarrow> store \<times> journal_error option" where
  "updateJournalEntry j a s =
     (case validateEntryContent j (upd_content a) of
        Some msg \<Rightarrow> (s, Some (ValidationError msg))
      | None \<Rightarrow>
      (case encrypt j (trim (upd_content a)) (upd_userId a) of
        None \<Rightarrow> (s, Some CipherError)
      | Some encryptedContent \<Rightarrow>
      (case (case upd_tags a of
               None \<Rightarrow> Inr None
             | Some ts \<Rightarrow> (case validateTags j ts of Inl msg \<Rightarrow> Inl msg | Inr vs \<Rightarrow> Inr (Some vs))) of
        Inl msg \<Rightarrow> (s, Some (ValidationError msg))
      | Inr newTags \<Rightarrow>
      (case update_error j of
        Some err \<Rightarrow> (s, Some (StorageError err))
      | None \<Rightarrow>
          (let s1 = s\<lparr>journal_entries :=
                        map (apply_update a encryptedContent newTags) (journal_entries s)\<rparr>;
               ps1 = remove_photos j a (photo_part s1)
           in case add_photos j a ps1 of
                (ps2, thrown) \<Rightarrow> (s1\<lparr>photo_part := ps2\<rparr>, thrown))))))"

text \<open>
  What an update must leave alone in a row: its id, owner, title, source, creation instant
  and entry date.
\<close>

definition stable_part :: "journal_entry \<Rightarrow> string \<times> string \<times> string \<times> string \<times> timestamp \<times> string" where
  "stable_part r =
     (row_id r, row_user_id r, row_title r, row_source r, row_created_at r, row_entry_date r)"

section \<open>Requests that reach the rate-limit gate, and sample collaborators\<close>

text \<open>
  A request reaches the rate-limit gate when it is not a preflight request, the client
  could be created, the body parsed, and every input check passed.
\<close>

definition reaches_rate_limit_gate :: "env \<Rightarrow> request \<Rightarrow> auth_request \<Rightarrow> bool" where
  "reaches_rate_limit_gate e req d =
     (req_method req \<noteq> ''OPTIONS'' \<and> truthy (SUPABASE_URL e) \<and>
      truthy (SUPABASE_SERVICE_ROLE_KEY e) \<and> json_body req = ObjectBody d \<and>
      input_validation d = None)"

definition internal_error :: response where
  "internal_error = json_response 500 (ErrorJson ''Internal server error'')"

definition demo_env :: env where
  "demo_env =
     \<lparr>SUPABASE_URL = Some ''https://project.supabase.co'',
      SUPABASE_SERVICE_ROLE_KEY = Some ''service-role-key'',
      now = 1000,
      check_rate_limit =
        (\<lambda>i ep m w. Some \<lparr>allowed = True, attempts = 1, max_attempts = int m,
                             blocked_until = None\<rparr>),
      account_lockouts =
        (\<lambda>em. if em = ''a@b.co'' then Some \<lparr>locked_until = Some 2000, failed_attempts = 5\<rparr>
              else None),
      insert_security_event = (\<lambda>ev. None),
      auth_signUp = (\<lambda>a. SignUpData \<lparr>new_user = Some ''u1'', new_session = None\<rparr>)\<rparr>"

definition blocking_limiter :: "string \<Rightarrow> string \<Rightarrow> nat \<Rightarrow> nat \<Rightarrow> rate_limit_check option" where
  "blocking_limiter i ep m w =
     Some \<lparr>allowed = False, attempts = 6, max_attempts = int m, blocked_until = Some 5000\<rparr>"

definition demo_body :: "string \<Rightarrow> string \<Rightarrow> string \<Rightarrow> auth_request" where
  "demo_body act em pw =
     \<lparr>action = Some act, email = Some em, password = Some pw,
      phoneNumber = None, timezone = None\<rparr>"

definition demo_request :: "string \<Rightarrow> string \<Rightarrow> string \<Rightarrow> request" where
  "demo_request act em pw =
     \<lparr>req_method = ''POST'', x_forwarded_for = Some ''10.0.0.1, 10.0.0.2'', x_real_ip = None,
      cf_connecting_ip = None, origin = None, json_body = ObjectBody (demo_body act em pw)\<rparr>"

text \<open>The same collaborators with a limiter that refuses every attempt.\<close>

definition blocked_env :: env where
  "blocked_env = demo_env\<lparr>check_rate_limit := blocking_limiter\<rparr>"

text \<open>A call of the handler without the outcome of its appends.\<close>

fun forget_outcome :: "event \<Rightarrow> event" where
  "forget_outcome (InsertSecurityEvent ev r) = InsertSecurityEvent ev None"
| "forget_outcome x = x"

text \<open>A client whose gateway call passes and whose credentials are accepted.\<close>

definition demo_client :: client_env where
  "demo_client =
     \<lparr>invoke_secure_auth = (\<lambda>b. InvokeResult (Some \<lparr>validation_passed = True\<rparr>) None),
      auth_signInWithPassword =
        (\<lambda>em pw. PasswordData \<lparr>session_user = ''u1'', access_token = ''token''\<rparr>),
      auth_signOut = SignOutThrows (Some ''network error'')\<rparr>"

section \<open>Sample collaborators of the journal service\<close>

text \<open>
  What the fetch shows for a stored row: the decrypted content and title when both could
  be decrypted, the stored ones otherwise.
\<close>

definition shown_entry :: "journal_env \<Rightarrow> string \<Rightarrow> fetched_entry \<Rightarrow> Entry" where
  "shown_entry j userId entry =
     (case decrypt j (row_content entry) userId of
        None \<Rightarrow> to_entry j entry (row_content entry) (row_title entry)
      | Some c \<Rightarrow>
          (case decrypt j (row_title entry) userId of
             None \<Rightarrow> to_entry j entry (row_content entry) (row_title entry)
           | Some t \<Rightarrow> to_entry j entry c t))"

text \<open>
  A service whose cipher marks its output with a prefix, for a user whose stored zone is
  eight hours behind UTC, run at 2024-01-01T06:00:00Z by a runtime of that same zone.
\<close>

definition demo_journal :: journal_env where
  "demo_journal =
     \<lparr>select_journal_entries = (\<lambda>u. Inr []),
      decrypt = (\<lambda>c u. if take 4 c = ''enc:'' then Some (drop 4 c) else None),
      encrypt = (\<lambda>p u. Some (''enc:'' @ p)),
      getPublicUrl = (\<lambda>p. ''https://cdn.example/'' @ p),
      validateEntryContent = (\<lambda>c. if c = [] then Some ''Content is required'' else None),
      validatePhotos = (\<lambda>ps. None),
      validateTags = (\<lambda>ts. Inr ts),
      checkPhotoLimit = (\<lambda>i ps st. None),
      uploadPhotos = (\<lambda>ps i u st. (st, None)),
      profile_timezone = (\<lambda>u. Some ''America/Los_Angeles''),
      clock = 1704088800000,
      zone_offset = (\<lambda>z. if z = ''America/Los_Angeles'' then Some (- 480)
                          else if z = ''UTC'' then Some 0 else None),
      runtime_offset = - 480,
      inserted_id = ''e1'',
      insert_error = None,
      update_error = None,
      url_pathname = (\<lambda>u. Some u),
      storage_remove_fails = (\<lambda>p. False),
      photo_delete_fails = (\<lambda>i f. False)\<rparr>"



text \<open>Two stored rows of one user; the content of the second one cannot be decrypted.\<close>

definition demo_rows :: "fetched_entry list" where
  "demo_rows =
     [\<lparr>row_id = ''e1'', row_user_id = ''u1'', row_content = ''enc:hello'',
       row_title = ''enc:day one'', row_source = ''web'', row_created_at = 2000,
       row_entry_date = ''2024-01-02'', row_tags = Some [''a''],
       journal_photos = Some [\<lparr>photo_id = ''p1'', file_path = ''u1/e1/a.png'',
                                file_name = ''a.png''\<rparr>]\<rparr>,
      \<lparr>row_id = ''e2'', row_user_id = ''u1'', row_content = ''corrupted'',
       row_title = ''enc:day two'', row_source = ''sms'', row_created_at = 1000,
       row_entry_date = ''2024-01-01'', row_tags = None, journal_photos = None\<rparr>]"

definition demo_fetch_env :: journal_env where
  "demo_fetch_env = demo_journal\<lparr>select_journal_entries := (\<lambda>u. Inr demo_rows)\<rparr>"

definition empty_store :: store where
  "empty_store = \<lparr>journal_entries = [], photo_part = \<lparr>journal_photo_rows = [], storage_objects = []\<rparr>\<rparr>"

definition demo_create :: create_args where
  "demo_create = \<lparr>new_content = ''hello'', new_title = ''t'', new_tags = [''a''], new_photos = [], new_userId = ''u1''\<rparr>"

definition demo_store :: store where
  "demo_store =
     \<lparr>journal_entries =
        [\<lparr>row_id = ''e1'', row_user_id = ''u1'', row_content = ''enc:hello'',
          row_title = ''enc:day one'', row_source = ''web'', row_created_at = 2000,
          row_entry_date = ''2024-01-02'', row_tags = Some [''a'']\<rparr>,
         \<lparr>row_id = ''e2'', row_user_id = ''u2'', row_content = ''enc:other'',
          row_title = ''enc:theirs'', row_source = ''sms'', row_created_at = 1000,
          row_entry_date = ''2024-01-01'', row_tags = None\<rparr>],
      photo_part = \<lparr>journal_photo_rows = [], storage_objects = []\<rparr>\<rparr>"

definition demo_update :: update_args where
  "demo_update =
     \<lparr>upd_id = ''e1'', upd_content = ''rewritten'', upd_tags = None, upd_photos = None,
      upd_removedPhotos = None, upd_userId = ''u1''\<rparr>"

definition signed_in :: auth_state where
  "signed_in =
     \<lparr>user = Some ''u1'',
      session = Some \<lparr>session_user = ''u1'', access_token = ''token''\<rparr>,
      loading = False\<rparr>"

section \<open>Password strength\<close>

lemma is_upper_A: "is_upper CHR ''A''"
  by (simp add: is_upper_def)

lemma is_lower_b: "is_lower CHR ''b''"
  by (simp add: is_lower_def)

lemma is_digit_1: "is_digit CHR ''1''"
  by (simp add: is_digit_def)

lemma no_upper_abcdefg1: "\<not> hasUpper ''abcdefg1''"
  by (simp add: hasUpper_def is_upper_def)

text \<open>
  Claim C5. Password strength validation accepts exactly the passwords of at least 8
  characters that hold an upper-case letter, a lower-case letter and a digit. The password
  \<^verbatim>\<open>abcdefg1\<close> is rejected and \<^verbatim>\<open>Abcdefg1\<close> is accepted. (\<^verbatim>\<open>abcdefg1\<close> has 8 characters
  and passes the length test; it is rejected because it has no upper-case letter.)
\<close>

theorem validatePassword_strength:
  "(validatePassword p \<longleftrightarrow>
      length p \<ge> 8 \<and> (\<exists>c \<in> set p. is_upper c) \<and> (\<exists>c \<in> set p. is_lower c) \<and>
      (\<exists>c \<in> set p. is_digit c)) \<and>
   \<not> validatePassword ''abcdefg1'' \<and>
   validatePassword ''Abcdefg1'' \<and>
   length ''abcdefg1'' = 8 \<and> minLength ''abcdefg1'' \<and> \<not> hasUpper ''abcdefg1''"
proof -
  have general: "validatePassword p \<longleftrightarrow>
      length p \<ge> 8 \<and> (\<exists>c \<in> set p. is_upper c) \<and> (\<exists>c \<in> set p. is_lower c) \<and>
      (\<exists>c \<in> set p. is_digit c)"
    by (simp add: validatePassword_def minLength_def hasUpper_def hasLower_def hasNumber_def
        list_ex_iff)
  have rejected: "\<not> validatePassword ''abcdefg1''"
    using no_upper_abcdefg1 by (simp add: validatePassword_def)
  have accepted: "validatePassword ''Abcdefg1''"
    using is_upper_A is_lower_b is_digit_1
    by (simp add: validatePassword_def minLength_def hasUpper_def hasLower_def hasNumber_def)
  have len: "length ''abcdefg1'' = 8 \<and> minLength ''abcdefg1''"
    by (simp add: minLength_def)
  from general rejected accepted len no_upper_abcdefg1 show ?thesis by blast
qed

theorem validatePassword_strength_witness:
  "validatePassword ''Passw0rd'' \<and> \<not> validatePassword ''Pass0rd''"
proof -
  have "is_upper CHR ''P''" "is_lower CHR ''a''" "is_digit CHR ''0''"
    by (simp_all add: is_upper_def is_lower_def is_digit_def)
  then have ok: "validatePassword ''Passw0rd''"
    using validatePassword_strength [of "''Passw0rd''"] by simp
  have short: "\<not> validatePassword ''Pass0rd''"
    using validatePassword_strength [of "''Pass0rd''"] by simp
  from ok short show ?thesis by simp
qed

section \<open>The gateway\<close>

lemma serve_at_gate:
  assumes "reaches_rate_limit_gate e req d"
  shows "serve e req =
     (fst (rate_limit_gate e req d),
      case snd (rate_limit_gate e req d) of Inl ex \<Rightarrow> internal_error | Inr r \<Rightarrow> r)"
  using assms
  by (simp add: reaches_rate_limit_gate_def serve_def serve_try_def internal_error_def
      split: prod.split sum.split)

lemma validated_action:
  assumes "input_validation d = None"
  shows "strv (action d) = ''signin'' \<or> strv (action d) = ''signup''"
  using assms by (simp add: input_validation_def split: if_splits)

lemma rate_limit_gate_first_call:
  "\<exists>rest. fst (rate_limit_gate e req d) =
     RpcCheckRateLimit (rateLimitIdentifier req d) (endpoint d) (p_max_attempts d)
       p_window_minutes # rest"
  by (simp add: rate_limit_gate_def Let_def split: option.split prod.split)

lemma rate_limit_gate_blocked:
  assumes "check_rate_limit e (rateLimitIdentifier req d) (endpoint d) (p_max_attempts d)
             p_window_minutes = Some rl"
    and "\<not> allowed rl"
  shows "rate_limit_gate e req d =
     ([RpcCheckRateLimit (rateLimitIdentifier req d) (endpoint d) (p_max_attempts d)
         p_window_minutes,
       InsertSecurityEvent (rate_limit_event req d rl)
         (insert_security_event e (rate_limit_event req d rl))],
      Inr (json_response 429 (RateLimitedJson ''Too many attempts. Please try again later.''
        (blocked_until rl))))"
  using assms by (simp add: rate_limit_gate_def Let_def)

lemma rate_limit_gate_allowed:
  assumes "check_rate_limit e (rateLimitIdentifier req d) (endpoint d) (p_max_attempts d)
             p_window_minutes = Some rl"
    and "allowed rl"
  shows "rate_limit_gate e req d =
     (RpcCheckRateLimit (rateLimitIdentifier req d) (endpoint d) (p_max_attempts d)
         p_window_minutes #
       fst (if strv (action d) = ''signin'' then signin_branch e d rl
            else signup_branch e req d rl),
      snd (if strv (action d) = ''signin'' then signin_branch e d rl
           else signup_branch e req d rl))"
  using assms by (simp add: rate_limit_gate_def Let_def split: prod.split)

text \<open>
  Claim C4. A request that reaches the rate-limit gate calls the rate limiter first, keyed
  by \<^verbatim>\<open>clientIP:email\<close>, with at most 5 attempts for sign-in and 3 for sign-up in a window
  of 15 minutes. When the limiter answers that the attempt is not allowed, the handler
  appends a \<^verbatim>\<open>rate_limit_exceeded\<close> security event of severity medium, makes no other call,
  and answers 429 with the limiter's \<^verbatim>\<open>blocked_until\<close>.
\<close>

theorem rate_limit_gate_call_and_block:
  assumes "reaches_rate_limit_gate e req d"
  shows "(\<exists>rest. fst (serve e req) =
            RpcCheckRateLimit (getClientIP req @ '':'' @ strv (email d))
              (if strv (action d) = ''signin'' then ''auth_signin'' else ''auth_signup'')
              (if strv (action d) = ''signin'' then 5 else 3) 15 # rest) \<and>
         (strv (action d) = ''signin'' \<or> strv (action d) = ''signup'') \<and>
         (\<forall>rl. check_rate_limit e (getClientIP req @ '':'' @ strv (email d))
                 (if strv (action d) = ''signin'' then ''auth_signin'' else ''auth_signup'')
                 (if strv (action d) = ''signin'' then 5 else 3) 15 = Some rl \<and> \<not> allowed rl \<longrightarrow>
            serve e req =
              ([RpcCheckRateLimit (getClientIP req @ '':'' @ strv (email d))
                  (if strv (action d) = ''signin'' then ''auth_signin'' else ''auth_signup'')
                  (if strv (action d) = ''signin'' then 5 else 3) 15,
                InsertSecurityEvent (rate_limit_event req d rl)
                  (insert_security_event e (rate_limit_event req d rl))],
               \<lparr>status = 429,
                body = RateLimitedJson ''Too many attempts. Please try again later.''
                         (blocked_until rl)\<rparr>) \<and>
            event_type (rate_limit_event req d rl) = ''rate_limit_exceeded'' \<and>
            event_identifier (rate_limit_event req d rl) =
              getClientIP req @ '':'' @ strv (email d) \<and>
            severity (rate_limit_event req d rl) = ''medium'')"
proof -
  have names: "rateLimitIdentifier req d = getClientIP req @ '':'' @ strv (email d)"
    "endpoint d = (if strv (action d) = ''signin'' then ''auth_signin'' else ''auth_signup'')"
    "p_max_attempts d = (if strv (action d) = ''signin'' then 5 else 3)"
    "p_window_minutes = 15"
    by (simp_all add: rateLimitIdentifier_def endpoint_def p_max_attempts_def
        p_window_minutes_def)
  from rate_limit_gate_first_call [of e req d] obtain rest where
    first: "fst (rate_limit_gate e req d) =
      RpcCheckRateLimit (rateLimitIdentifier req d) (endpoint d) (p_max_attempts d)
        p_window_minutes # rest" ..
  have call: "\<exists>rest. fst (serve e req) =
      RpcCheckRateLimit (rateLimitIdentifier req d) (endpoint d) (p_max_attempts d)
        p_window_minutes # rest"
    using first by (simp add: serve_at_gate [OF assms])
  have act: "strv (action d) = ''signin'' \<or> strv (action d) = ''signup''"
    using assms by (simp add: reaches_rate_limit_gate_def validated_action)
  have blocked: "serve e req =
              ([RpcCheckRateLimit (rateLimitIdentifier req d) (endpoint d) (p_max_attempts d)
                  p_window_minutes,
                InsertSecurityEvent (rate_limit_event req d rl)
                  (insert_security_event e (rate_limit_event req d rl))],
               \<lparr>status = 429,
                body = RateLimitedJson ''Too many attempts. Please try again later.''
                         (blocked_until rl)\<rparr>)"
    if "check_rate_limit e (rateLimitIdentifier req d) (endpoint d) (p_max_attempts d)
          p_window_minutes = Some rl" and "\<not> allowed rl" for rl
    using that
    by (simp add: serve_at_gate [OF assms] rate_limit_gate_blocked json_response_def)
  have fields: "event_type (rate_limit_event req d rl) = ''rate_limit_exceeded'' \<and>
      event_identifier (rate_limit_event req d rl) = rateLimitIdentifier req d \<and>
      severity (rate_limit_event req d rl) = ''medium''" for rl
    by (simp add: rate_limit_event_def)
  show ?thesis
    using call act blocked fields unfolding names by blast
qed


lemma signin_branch_trace:
  "fst (signin_branch e d rl) = [SelectAccountLockout (strv (email d))]"
  by (simp add: signin_branch_def Let_def split: option.split)

lemma signin_branch_locked:
  assumes "account_lockouts e (strv (email d)) = Some row"
    and "locked_until row = Some t" and "t > now e"
  shows "snd (signin_branch e d rl) =
     Inr (json_response 423 (LockedJson
       ''Account temporarily locked due to multiple failed login attempts'' t))"
  using assms by (simp add: signin_branch_def active_lock_def Let_def)

lemma signin_branch_open:
  assumes "active_lock e (account_lockouts e (strv (email d))) = None"
  shows "snd (signin_branch e d rl) =
     Inr (json_response 200 (ValidationPassedJson True ''Security validation passed''
       (attempts rl) (max_attempts rl)))"
  using assms by (simp add: signin_branch_def Let_def)

lemma signin_gate:
  assumes "reaches_rate_limit_gate e req d" and "strv (action d) = ''signin''"
    and "check_rate_limit e (rateLimitIdentifier req d) ''auth_signin'' 5 15 = Some rl"
    and "allowed rl"
  shows "serve e req =
     ([RpcCheckRateLimit (rateLimitIdentifier req d) ''auth_signin'' 5 15,
       SelectAccountLockout (strv (email d))],
      case snd (signin_branch e d rl) of Inl ex \<Rightarrow> internal_error | Inr r \<Rightarrow> r)"
proof -
  have names: "endpoint d = ''auth_signin''" "p_max_attempts d = 5" "p_window_minutes = 15"
    using assms(2) by (simp_all add: endpoint_def p_max_attempts_def p_window_minutes_def)
  have "rate_limit_gate e req d =
     (RpcCheckRateLimit (rateLimitIdentifier req d) ''auth_signin'' 5 15 #
        fst (signin_branch e d rl), snd (signin_branch e d rl))"
    using rate_limit_gate_allowed [of e req d rl] assms(2,3,4) by (simp add: names)
  then show ?thesis
    by (simp add: serve_at_gate [OF assms(1)] signin_branch_trace)
qed

text \<open>
  Claim C2. A sign-in request that reaches the gate and that the rate limiter allows, for
  an email whose lockout row has a \<^verbatim>\<open>locked_until\<close> in the future, is answered 423 with that
  \<^verbatim>\<open>locked_until\<close>. The handler has called the rate limiter and then read the lockout row,
  in this order; it has not called the identity provider; and the status is not the 429 of
  the rate limit.
\<close>

theorem lockout_rejects_signin:
  assumes "reaches_rate_limit_gate e req d" and "strv (action d) = ''signin''"
    and "check_rate_limit e (getClientIP req @ '':'' @ strv (email d)) ''auth_signin'' 5 15 =
           Some rl"
    and "allowed rl"
    and "account_lockouts e (strv (email d)) = Some row"
    and "locked_until row = Some t" and "t > now e"
  shows "serve e req =
           ([RpcCheckRateLimit (getClientIP req @ '':'' @ strv (email d)) ''auth_signin'' 5 15,
             SelectAccountLockout (strv (email d))],
            \<lparr>status = 423,
             body = LockedJson
               ''Account temporarily locked due to multiple failed login attempts'' t\<rparr>) \<and>
         (\<forall>a. AuthSignUp a \<notin> set (fst (serve e req))) \<and>
         status (snd (serve e req)) \<noteq> 429"
proof -
  have rl: "check_rate_limit e (rateLimitIdentifier req d) ''auth_signin'' 5 15 = Some rl"
    using assms(3) by (simp add: rateLimitIdentifier_def)
  have "serve e req =
           ([RpcCheckRateLimit (rateLimitIdentifier req d) ''auth_signin'' 5 15,
             SelectAccountLockout (strv (email d))],
            json_response 423 (LockedJson
               ''Account temporarily locked due to multiple failed login attempts'' t))"
    using signin_gate [OF assms(1,2) rl assms(4)] signin_branch_locked [OF assms(5,6,7)]
    by simp
  then show ?thesis
    by (simp add: json_response_def rateLimitIdentifier_def)
qed


lemma active_lock_None:
  "active_lock e lockoutData = None \<longleftrightarrow>
     \<not> (\<exists>row t. lockoutData = Some row \<and> locked_until row = Some t \<and> t > now e)"
  by (auto simp add: active_lock_def split: option.splits)

lemma signIn_first_call:
  "\<exists>rest. fst (signIn c em pw) = InvokeSecureAuth (signin_body em pw) # rest"
  by (simp add: signIn_def split: invoke_outcome.split option.split password_outcome.split)

lemma signIn_credentials_iff:
  "SignInWithPassword a b \<in> set (fst (signIn c em pw)) \<longleftrightarrow>
     a = em \<and> b = pw \<and>
     (\<exists>v. invoke_secure_auth c (signin_body em pw) = InvokeResult (Some v) None \<and>
          validation_passed v)"
  by (auto simp add: signIn_def passed_def
      split: invoke_outcome.splits option.splits password_outcome.splits)

text \<open>
  Claim C3. A sign-in request that passes validation, the rate limit and the lockout check
  is answered 200 with \<^verbatim>\<open>validation_passed: true\<close>, the message and the two rate-limit
  counters, and the handler has not called the identity provider. The client's \<^verbatim>\<open>signIn\<close>
  calls the gateway first, and sends the credentials to the identity provider exactly when
  the gateway call resolved without error and with \<^verbatim>\<open>validation_passed\<close>.
\<close>

theorem signin_validation_only:
  assumes "reaches_rate_limit_gate e req d" and "strv (action d) = ''signin''"
    and "check_rate_limit e (getClientIP req @ '':'' @ strv (email d)) ''auth_signin'' 5 15 =
           Some rl"
    and "allowed rl"
    and "\<not> (\<exists>row t. account_lockouts e (strv (email d)) = Some row \<and>
                   locked_until row = Some t \<and> t > now e)"
  shows "serve e req =
           ([RpcCheckRateLimit (getClientIP req @ '':'' @ strv (email d)) ''auth_signin'' 5 15,
             SelectAccountLockout (strv (email d))],
            \<lparr>status = 200,
             body = ValidationPassedJson True ''Security validation passed''
                      (attempts rl) (max_attempts rl)\<rparr>) \<and>
         (\<forall>a. AuthSignUp a \<notin> set (fst (serve e req))) \<and>
         (\<exists>rest. fst (signIn c em pw) = InvokeSecureAuth (signin_body em pw) # rest) \<and>
         (\<forall>a b. SignInWithPassword a b \<in> set (fst (signIn c em pw)) \<longleftrightarrow>
            a = em \<and> b = pw \<and>
            (\<exists>v. invoke_secure_auth c (signin_body em pw) = InvokeResult (Some v) None \<and>
                 validation_passed v))"
proof -
  have rl: "check_rate_limit e (rateLimitIdentifier req d) ''auth_signin'' 5 15 = Some rl"
    using assms(3) by (simp add: rateLimitIdentifier_def)
  have unlocked: "active_lock e (account_lockouts e (strv (email d))) = None"
    using assms(5) by (simp add: active_lock_None)
  have "serve e req =
           ([RpcCheckRateLimit (rateLimitIdentifier req d) ''auth_signin'' 5 15,
             SelectAccountLockout (strv (email d))],
            json_response 200 (ValidationPassedJson True ''Security validation passed''
                      (attempts rl) (max_attempts rl)))"
    using signin_gate [OF assms(1,2) rl assms(4)] signin_branch_open [OF unlocked]
    by simp
  then have gateway: "serve e req =
           ([RpcCheckRateLimit (getClientIP req @ '':'' @ strv (email d)) ''auth_signin'' 5 15,
             SelectAccountLockout (strv (email d))],
            \<lparr>status = 200,
             body = ValidationPassedJson True ''Security validation passed''
                      (attempts rl) (max_attempts rl)\<rparr>)"
    by (simp add: json_response_def rateLimitIdentifier_def)
  then have quiet: "\<forall>a. AuthSignUp a \<notin> set (fst (serve e req))"
    by simp
  show ?thesis
    using gateway quiet signIn_first_call [of c em pw] signIn_credentials_iff [of _ _ c em pw]
    by blast
qed

lemma signup_branch_outcome_free:
  "snd (signup_branch (e\<lparr>insert_security_event := f\<rparr>) req d rl) =
   snd (signup_branch (e\<lparr>insert_security_event := g\<rparr>) req d rl)"
  "map forget_outcome (fst (signup_branch (e\<lparr>insert_security_event := f\<rparr>) req d rl)) =
   map forget_outcome (fst (signup_branch (e\<lparr>insert_security_event := g\<rparr>) req d rl))"
  by (simp_all add: signup_branch_def Let_def split: signup_outcome.split option.split)

lemma signin_branch_outcome_free:
  "signin_branch (e\<lparr>insert_security_event := f\<rparr>) d rl =
   signin_branch (e\<lparr>insert_security_event := g\<rparr>) d rl"
  by (simp add: signin_branch_def active_lock_def Let_def split: option.split)

lemma rate_limit_gate_outcome_free:
  "snd (rate_limit_gate (e\<lparr>insert_security_event := f\<rparr>) req d) =
   snd (rate_limit_gate (e\<lparr>insert_security_event := g\<rparr>) req d)"
  "map forget_outcome (fst (rate_limit_gate (e\<lparr>insert_security_event := f\<rparr>) req d)) =
   map forget_outcome (fst (rate_limit_gate (e\<lparr>insert_security_event := g\<rparr>) req d))"
  using signup_branch_outcome_free [where e = e and f = f and g = g and req = req and d = d]
    signin_branch_outcome_free [where e = e and f = f and g = g and d = d]
  by (simp_all add: rate_limit_gate_def Let_def case_prod_beta split: option.split)

lemma serve_try_outcome_free:
  "snd (serve_try (e\<lparr>insert_security_event := f\<rparr>) req) =
   snd (serve_try (e\<lparr>insert_security_event := g\<rparr>) req)"
  "map forget_outcome (fst (serve_try (e\<lparr>insert_security_event := f\<rparr>) req)) =
   map forget_outcome (fst (serve_try (e\<lparr>insert_security_event := g\<rparr>) req))"
  using rate_limit_gate_outcome_free [where e = e and f = f and g = g and req = req]
  by (simp_all add: serve_try_def split: option.split parsed_body.split)

lemma serve_split:
  "serve e req =
     (if req_method req = ''OPTIONS'' then ([], json_response 200 (PlainText ''ok''))
      else (fst (serve_try e req),
            case snd (serve_try e req) of Inl ex \<Rightarrow> internal_error | Inr r \<Rightarrow> r))"
  by (simp add: serve_def internal_error_def split: prod.split sum.split)

text \<open>
  Claim C7. The outcome of the security-event append never changes what the handler does:
  for every request, two runs that differ only in whether the appends fail give the same
  response and make the same calls.
\<close>

theorem logging_failure_swallowed:
  "snd (serve (e\<lparr>insert_security_event := f\<rparr>) req) =
     snd (serve (e\<lparr>insert_security_event := g\<rparr>) req) \<and>
   map forget_outcome (fst (serve (e\<lparr>insert_security_event := f\<rparr>) req)) =
     map forget_outcome (fst (serve (e\<lparr>insert_security_event := g\<rparr>) req))"
  using serve_try_outcome_free [where e = e and f = f and g = g and req = req]
  by (simp add: serve_split)


lemma validateEmail_demo: "validateEmail ''a@b.co''" "validateEmail ''c@b.co''"
  by (simp_all add: validateEmail_def emailRegex_def email_char_def is_space_def)

lemma getClientIP_demo: "getClientIP (demo_request act em pw) = ''10.0.0.1''"
  by (simp add: getClientIP_def demo_request_def truthy_def strv_def trim_def is_space_def)

lemma demo_body_fields:
  "strv (action (demo_body act em pw)) = act"
  "strv (email (demo_body act em pw)) = em"
  "strv (password (demo_body act em pw)) = pw"
  by (simp_all add: demo_body_def strv_def)

lemma reaches_demo_signin:
  "reaches_rate_limit_gate (demo_env\<lparr>check_rate_limit := l\<rparr>)
     (demo_request ''signin'' ''a@b.co'' ''x'') (demo_body ''signin'' ''a@b.co'' ''x'')"
  "reaches_rate_limit_gate (demo_env\<lparr>check_rate_limit := l\<rparr>)
     (demo_request ''signin'' ''c@b.co'' ''x'') (demo_body ''signin'' ''c@b.co'' ''x'')"
  using validateEmail_demo
  by (simp_all add: reaches_rate_limit_gate_def demo_env_def demo_request_def demo_body_def
      input_validation_def truthy_def strv_def)

theorem rate_limit_gate_call_and_block_witness:
  "reaches_rate_limit_gate blocked_env (demo_request ''signin'' ''a@b.co'' ''x'')
     (demo_body ''signin'' ''a@b.co'' ''x'') \<and>
   fst (serve blocked_env (demo_request ''signin'' ''a@b.co'' ''x'')) =
     [RpcCheckRateLimit ''10.0.0.1:a@b.co'' ''auth_signin'' 5 15,
      InsertSecurityEvent
        \<lparr>event_type = ''rate_limit_exceeded'', event_user_id = None,
         event_identifier = ''10.0.0.1:a@b.co'',
         details = [(''endpoint'', JStr ''auth_signin''), (''ip'', JStr ''10.0.0.1''),
                    (''email'', JStr ''a@b.co''), (''blocked_until'', JTimestamp 5000)],
         severity = ''medium''\<rparr> None] \<and>
   snd (serve blocked_env (demo_request ''signin'' ''a@b.co'' ''x'')) =
     \<lparr>status = 429,
      body = RateLimitedJson ''Too many attempts. Please try again later.'' (Some 5000)\<rparr>"
proof -
  have reach: "reaches_rate_limit_gate blocked_env (demo_request ''signin'' ''a@b.co'' ''x'')
     (demo_body ''signin'' ''a@b.co'' ''x'')"
    unfolding blocked_env_def by (rule reaches_demo_signin)
  have limiter: "check_rate_limit blocked_env i ep m w =
      Some \<lparr>allowed = False, attempts = 6, max_attempts = int m, blocked_until = Some 5000\<rparr>"
    for i ep m w
    by (simp add: blocked_env_def blocking_limiter_def)
  have ins: "insert_security_event blocked_env ev = None" for ev
    by (simp add: blocked_env_def demo_env_def)
  show ?thesis
    using reach rate_limit_gate_call_and_block [OF reach]
    by (simp add: limiter ins getClientIP_demo demo_body_fields rate_limit_event_def
        rateLimitIdentifier_def endpoint_def)
qed

theorem lockout_rejects_signin_witness:
  "serve demo_env (demo_request ''signin'' ''a@b.co'' ''x'') =
     ([RpcCheckRateLimit ''10.0.0.1:a@b.co'' ''auth_signin'' 5 15,
       SelectAccountLockout ''a@b.co''],
      \<lparr>status = 423,
       body = LockedJson
         ''Account temporarily locked due to multiple failed login attempts'' 2000\<rparr>)"
proof -
  have reach: "reaches_rate_limit_gate demo_env (demo_request ''signin'' ''a@b.co'' ''x'')
     (demo_body ''signin'' ''a@b.co'' ''x'')"
    using reaches_demo_signin(1) [of "check_rate_limit demo_env"] by simp
  have act: "strv (action (demo_body ''signin'' ''a@b.co'' ''x'')) = ''signin''"
    by (simp add: demo_body_fields)
  have limiter: "check_rate_limit demo_env
      (getClientIP (demo_request ''signin'' ''a@b.co'' ''x'') @ '':'' @
       strv (email (demo_body ''signin'' ''a@b.co'' ''x''))) ''auth_signin'' 5 15 =
      Some \<lparr>allowed = True, attempts = 1, max_attempts = 5, blocked_until = None\<rparr>"
    by (simp add: demo_env_def)
  have ok: "allowed \<lparr>allowed = True, attempts = 1, max_attempts = 5, blocked_until = None\<rparr>"
    by simp
  have row: "account_lockouts demo_env (strv (email (demo_body ''signin'' ''a@b.co'' ''x''))) =
      Some \<lparr>locked_until = Some 2000, failed_attempts = 5\<rparr>"
    by (simp add: demo_env_def demo_body_fields)
  have until: "locked_until \<lparr>locked_until = Some 2000, failed_attempts = 5\<rparr> = Some 2000"
    by simp
  have future: "2000 > now demo_env"
    by (simp add: demo_env_def)
  show ?thesis
    using lockout_rejects_signin [OF reach act limiter ok row until future]
    by (simp add: getClientIP_demo demo_body_fields)
qed


lemma reaches_demo_env:
  "reaches_rate_limit_gate demo_env (demo_request ''signin'' ''c@b.co'' ''x'')
     (demo_body ''signin'' ''c@b.co'' ''x'')"
  using reaches_demo_signin(2) [of "check_rate_limit demo_env"] by simp

theorem signin_validation_only_witness:
  "serve demo_env (demo_request ''signin'' ''c@b.co'' ''x'') =
     ([RpcCheckRateLimit ''10.0.0.1:c@b.co'' ''auth_signin'' 5 15,
       SelectAccountLockout ''c@b.co''],
      \<lparr>status = 200,
       body = ValidationPassedJson True ''Security validation passed'' 1 5\<rparr>) \<and>
   SignInWithPassword ''c@b.co'' ''x'' \<in> set (fst (signIn demo_client ''c@b.co'' ''x''))"
proof -
  have act: "strv (action (demo_body ''signin'' ''c@b.co'' ''x'')) = ''signin''"
    by (simp add: demo_body_fields)
  have limiter: "check_rate_limit demo_env
      (getClientIP (demo_request ''signin'' ''c@b.co'' ''x'') @ '':'' @
       strv (email (demo_body ''signin'' ''c@b.co'' ''x''))) ''auth_signin'' 5 15 =
      Some \<lparr>allowed = True, attempts = 1, max_attempts = 5, blocked_until = None\<rparr>"
    by (simp add: demo_env_def)
  have ok: "allowed \<lparr>allowed = True, attempts = 1, max_attempts = 5, blocked_until = None\<rparr>"
    by simp
  have unlocked: "\<not> (\<exists>row t.
      account_lockouts demo_env (strv (email (demo_body ''signin'' ''c@b.co'' ''x''))) =
        Some row \<and> locked_until row = Some t \<and> t > now demo_env)"
    by (simp add: demo_env_def demo_body_fields)
  have invoked: "invoke_secure_auth demo_client (signin_body ''c@b.co'' ''x'') =
      InvokeResult (Some \<lparr>validation_passed = True\<rparr>) None"
    by (simp add: demo_client_def)
  show ?thesis
    using signin_validation_only [OF reaches_demo_env act limiter ok unlocked,
        of demo_client "''c@b.co''" "''x''"] invoked
    by (simp add: getClientIP_demo demo_body_fields)
qed

lemma serve_blocked_env:
  "snd (serve (blocked_env\<lparr>insert_security_event := g\<rparr>)
          (demo_request ''signin'' ''a@b.co'' ''x'')) =
     \<lparr>status = 429,
      body = RateLimitedJson ''Too many attempts. Please try again later.'' (Some 5000)\<rparr>"
proof -
  have reach: "reaches_rate_limit_gate (blocked_env\<lparr>insert_security_event := g\<rparr>)
      (demo_request ''signin'' ''a@b.co'' ''x'') (demo_body ''signin'' ''a@b.co'' ''x'')"
    using reaches_demo_signin(1) [of blocking_limiter]
    by (simp add: blocked_env_def reaches_rate_limit_gate_def)
  have limiter: "check_rate_limit (blocked_env\<lparr>insert_security_event := g\<rparr>) i ep m w =
      Some \<lparr>allowed = False, attempts = 6, max_attempts = int m, blocked_until = Some 5000\<rparr>"
    for i ep m w
    by (simp add: blocked_env_def blocking_limiter_def)
  show ?thesis
    using rate_limit_gate_blocked [OF limiter, of req d for req d]
    by (simp add: serve_at_gate [OF reach] json_response_def)
qed

theorem logging_failure_swallowed_witness:
  "snd (serve (blocked_env\<lparr>insert_security_event := (\<lambda>ev. Some ''insert failed'')\<rparr>)
          (demo_request ''signin'' ''a@b.co'' ''x'')) =
     \<lparr>status = 429,
      body = RateLimitedJson ''Too many attempts. Please try again later.'' (Some 5000)\<rparr>"
  using logging_failure_swallowed [where e = blocked_env
      and f = "\<lambda>ev. Some ''insert failed''" and g = "\<lambda>ev. None"
      and req = "demo_request ''signin'' ''a@b.co'' ''x''"]
    serve_blocked_env [of "\<lambda>ev. None"]
  by simp

section \<open>The journal service and the sign-out\<close>

lemma process_entry_result:
  "snd (process_entry j userId entry) = Some (shown_entry j userId entry)"
  by (simp add: process_entry_def shown_entry_def split: option.split)

lemma map_filter_all_Some:
  "List.map_filter (\<lambda>x. Some (f x)) xs = map f xs"
  by (induction xs) (simp_all add: List.map_filter_simps)

lemma valid_entries:
  "List.map_filter snd (map (process_entry j userId) rows) = map (shown_entry j userId) rows"
  by (induction rows) (simp_all add: List.map_filter_simps process_entry_result)

lemma fetch_result:
  assumes "userId \<noteq> []" and "select_journal_entries j userId = Inr rows"
  shows "snd (fetchJournalEntries j userId) = Inr (map (shown_entry j userId) rows)"
  using assms by (simp add: fetchJournalEntries_def Let_def valid_entries)

lemma fetch_fails_iff:
  "(\<exists>err. snd (fetchJournalEntries j userId) = Inl err) \<longleftrightarrow>
     userId \<noteq> [] \<and> (\<exists>err. select_journal_entries j userId = Inl err)"
  by (auto simp add: fetchJournalEntries_def Let_def split: sum.splits)

text \<open>
  Claim C1. When the query of a fetch for a user succeeds, the fetch succeeds whatever the
  cipher does, and returns one entry per stored row, in order. The entry of a row whose
  content and title both decrypt carries the decrypted content and title; the entry of a
  row for which either decryption throws carries the stored content and title. So for two
  rows, one decryptable and one not, the fetch returns the decrypted entry and the raw one.
\<close>

theorem fetch_falls_back_per_entry:
  assumes "userId \<noteq> []" and "select_journal_entries j userId = Inr rows"
  shows "snd (fetchJournalEntries j userId) = Inr (map (shown_entry j userId) rows) \<and>
         length (map (shown_entry j userId) rows) = length rows \<and>
         (\<forall>entry c t. decrypt j (row_content entry) userId = Some c \<and>
                      decrypt j (row_title entry) userId = Some t \<longrightarrow>
            shown_entry j userId entry = to_entry j entry c t \<and>
            content (shown_entry j userId entry) = c \<and> title (shown_entry j userId entry) = t) \<and>
         (\<forall>entry. decrypt j (row_content entry) userId = None \<or>
                  decrypt j (row_title entry) userId = None \<longrightarrow>
            shown_entry j userId entry = to_entry j entry (row_content entry) (row_title entry) \<and>
            content (shown_entry j userId entry) = row_content entry \<and>
            title (shown_entry j userId entry) = row_title entry) \<and>
         (\<forall>good bad c t.
            rows = [good, bad] \<and> decrypt j (row_content good) userId = Some c \<and>
            decrypt j (row_title good) userId = Some t \<and>
            (decrypt j (row_content bad) userId = None \<or>
             decrypt j (row_title bad) userId = None) \<longrightarrow>
            snd (fetchJournalEntries j userId) =
              Inr [to_entry j good c t, to_entry j bad (row_content bad) (row_title bad)])"
proof -
  have result: "snd (fetchJournalEntries j userId) = Inr (map (shown_entry j userId) rows)"
    using assms by (rule fetch_result)
  have decrypted: "shown_entry j userId entry = to_entry j entry c t \<and>
      content (shown_entry j userId entry) = c \<and> title (shown_entry j userId entry) = t"
    if "decrypt j (row_content entry) userId = Some c"
      and "decrypt j (row_title entry) userId = Some t" for entry c t
    using that by (simp add: shown_entry_def to_entry_def)
  have raw: "shown_entry j userId entry = to_entry j entry (row_content entry) (row_title entry) \<and>
      content (shown_entry j userId entry) = row_content entry \<and>
      title (shown_entry j userId entry) = row_title entry"
    if "decrypt j (row_content entry) userId = None \<or> decrypt j (row_title entry) userId = None"
    for entry
    using that by (auto simp add: shown_entry_def to_entry_def split: option.split)
  have two: "snd (fetchJournalEntries j userId) =
      Inr [to_entry j good c t, to_entry j bad (row_content bad) (row_title bad)]"
    if "rows = [good, bad]" and "decrypt j (row_content good) userId = Some c"
      and "decrypt j (row_title good) userId = Some t"
      and "decrypt j (row_content bad) userId = None \<or> decrypt j (row_title bad) userId = None"
    for good bad c t
    using result that(1) decrypted [OF that(2,3)] raw [OF that(4)] by simp
  show ?thesis
    using result decrypted raw two by (simp only: length_map) blast
qed

text \<open>
  Claim C10. A fetch with an empty user identity returns the empty list and calls no
  collaborator: no query, no decryption, no photo URL resolution.
\<close>

theorem fetch_without_user:
  "fetchJournalEntries j [] = ([], Inr [])"
  by (simp add: fetchJournalEntries_def)

text \<open>
  Claim C9. Whatever the remote sign-out does (it succeeds, resolves with an error, or
  throws), \<^verbatim>\<open>signOut\<close> first sets the session and the user to null, then makes the remote
  call, and ends with both still null and no error reported.
\<close>

theorem signOut_clears_local_state:
  "signOut c st =
     ([SetSession None, SetUser None, AuthSignOut],
      st\<lparr>session := None, user := None\<rparr>, \<lparr>so_error = None\<rparr>) \<and>
   session (fst (snd (signOut c st))) = None \<and> user (fst (snd (signOut c st))) = None"
  by (simp add: signOut_def clearAuthState_def split: signout_outcome.split)


lemma toISODate_demo:
  "toISODate 1704088800000 = ''2024-01-01''" "toISODate 1704060000000 = ''2023-12-31''"
  by code_simp+

lemma entryDate_browser: "entryDate demo_journal ''u1'' = Some ''2024-01-01''"
  by (simp add: entryDate_def userTimezone_def demo_journal_def truthy_def strv_def
      toLocaleString_def parseLocal_def toISODate_demo)

lemma entryDate_utc_runtime:
  "entryDate (demo_journal\<lparr>runtime_offset := 0\<rparr>) ''u1'' = Some ''2023-12-31''"
  by (simp add: entryDate_def userTimezone_def demo_journal_def truthy_def strv_def
      toLocaleString_def parseLocal_def toISODate_demo)

lemma entryDate_runtime_in_user_zone:
  assumes "zone_offset j (userTimezone j userId) = Some off" and "runtime_offset j = off"
  shows "entryDate j userId = Some (toISODate (clock j div 1000 * 1000))"
  using assms by (simp add: entryDate_def toLocaleString_def parseLocal_def)

lemma entryDate_runtime_utc:
  assumes "zone_offset j (userTimezone j userId) = Some off" and "runtime_offset j = 0"
  shows "entryDate j userId = Some (toISODate ((clock j div 1000 + off * 60) * 1000))"
  using assms by (simp add: entryDate_def toLocaleString_def parseLocal_def)

text \<open>
  Claim C6. The entry date is the UTC date of the instant obtained by reading the user's
  wall clock as a time of the runtime's own zone: it is the user's calendar date when the
  runtime's zone is UTC (\<open>entryDate_runtime_utc\<close>), and the UTC date when the runtime is in
  the user's zone (\<open>entryDate_runtime_in_user_zone\<close>). For a user eight hours behind UTC
  who creates an entry at 2024-01-01T06:00:00Z from a runtime of that same zone, the stored
  entry date is 2024-01-01, not 2023-12-31.
\<close>

theorem createJournalEntry_entry_date_in_user_zone_runtime:
  "snd (createJournalEntry demo_journal demo_create empty_store) =
     Inr \<lparr>row_id = ''e1'', row_user_id = ''u1'', row_content = ''enc:hello'',
          row_title = ''enc:t'', row_source = ''web'', row_created_at = 1704088800000,
          row_entry_date = ''2024-01-01'', row_tags = Some [''a'']\<rparr>"
proof -
  have fields: "validateEntryContent demo_journal ''hello'' = None"
    "validatePhotos demo_journal [] = None"
    "encrypt demo_journal p u = Some (''enc:'' @ p)"
    "validateTags demo_journal ts = Inr ts"
    "insert_error demo_journal = None" "inserted_id demo_journal = ''e1''"
    "clock demo_journal = 1704088800000" for p u ts
    by (simp_all add: demo_journal_def)
  have trims: "trim ''hello'' = ''hello''" "trim ''t'' = ''t''"
    by (simp_all add: trim_def is_space_def)
  show ?thesis
    by (simp add: createJournalEntry_def demo_create_def fields trims entryDate_browser Let_def)
qed


lemma stable_apply_update: "stable_part (apply_update a enc nt r) = stable_part r"
  by (simp add: apply_update_def stable_part_def split: option.split)

lemma update_entries_cases:
  "journal_entries (fst (updateJournalEntry j a s)) = journal_entries s \<or>
   (\<exists>enc nt. encrypt j (trim (upd_content a)) (upd_userId a) = Some enc \<and>
      (nt = None \<and> upd_tags a = None \<or>
       (\<exists>ts vs. upd_tags a = Some ts \<and> validateTags j ts = Inr vs \<and> nt = Some vs)) \<and>
      journal_entries (fst (updateJournalEntry j a s)) =
        map (apply_update a enc nt) (journal_entries s))"
  by (auto simp add: updateJournalEntry_def Let_def
      split: option.splits sum.splits prod.splits)

lemma apply_update_changes:
  assumes "apply_update a enc nt r \<noteq> r"
  shows "row_id r = upd_id a \<and> row_user_id r = upd_userId a \<and>
         row_content (apply_update a enc nt r) = enc"
  using assms by (auto simp add: apply_update_def split: option.splits if_splits)

lemma apply_update_tags:
  assumes "row_tags (apply_update a enc nt r) \<noteq> row_tags r"
  shows "\<exists>vs. nt = Some vs \<and> row_tags (apply_update a enc nt r) = Some vs"
  using assms by (auto simp add: apply_update_def split: option.splits if_splits)

text \<open>
  Claim C8. Whatever an update does and however it ends, every row of \<^verbatim>\<open>journal_entries\<close>
  keeps its id, owner, title, source, creation instant and entry date. A row that changes
  is a row with the given id and user, and its content is the encrypted new content; the
  tags of a row change only when tags were given, and then to the validated tags.
\<close>

theorem update_changes_content_and_tags_only:
  "map stable_part (journal_entries (fst (updateJournalEntry j a s))) =
     map stable_part (journal_entries s) \<and>
   (\<forall>i < length (journal_entries s).
      (journal_entries (fst (updateJournalEntry j a s)) ! i \<noteq> journal_entries s ! i \<longrightarrow>
         row_id (journal_entries s ! i) = upd_id a \<and>
         row_user_id (journal_entries s ! i) = upd_userId a \<and>
         encrypt j (trim (upd_content a)) (upd_userId a) =
           Some (row_content (journal_entries (fst (updateJournalEntry j a s)) ! i))) \<and>
      (row_tags (journal_entries (fst (updateJournalEntry j a s)) ! i) \<noteq>
         row_tags (journal_entries s ! i) \<longrightarrow>
         (\<exists>ts vs. upd_tags a = Some ts \<and> validateTags j ts = Inr vs \<and>
            row_tags (journal_entries (fst (updateJournalEntry j a s)) ! i) = Some vs)))"
proof -
  let ?after = "journal_entries (fst (updateJournalEntry j a s))"
  let ?before = "journal_entries s"
  from update_entries_cases [of j a s] consider
    (same) "?after = ?before"
  | (written) enc nt where "encrypt j (trim (upd_content a)) (upd_userId a) = Some enc"
      and "nt = None \<and> upd_tags a = None \<or>
           (\<exists>ts vs. upd_tags a = Some ts \<and> validateTags j ts = Inr vs \<and> nt = Some vs)"
      and "?after = map (apply_update a enc nt) ?before"
    by blast
  then show ?thesis
  proof cases
    case same
    then show ?thesis by simp
  next
    case written
    have frame: "map stable_part ?after = map stable_part ?before"
      by (simp add: written(3) stable_apply_update)
    have rows: "(?after ! i \<noteq> ?before ! i \<longrightarrow>
         row_id (?before ! i) = upd_id a \<and> row_user_id (?before ! i) = upd_userId a \<and>
         encrypt j (trim (upd_content a)) (upd_userId a) = Some (row_content (?after ! i))) \<and>
      (row_tags (?after ! i) \<noteq> row_tags (?before ! i) \<longrightarrow>
         (\<exists>ts vs. upd_tags a = Some ts \<and> validateTags j ts = Inr vs \<and>
            row_tags (?after ! i) = Some vs))"
      if "i < length ?before" for i
    proof -
      have at: "?after ! i = apply_update a enc nt (?before ! i)"
        using that by (simp add: written(3))
      show ?thesis
        using apply_update_changes [of a enc nt "?before ! i"]
          apply_update_tags [of a enc nt "?before ! i"] written(1,2)
        unfolding at by auto
    qed
    from frame rows show ?thesis by blast
  qed
qed

lemma update_written:
  assumes "validateEntryContent j (upd_content a) = None"
    and "encrypt j (trim (upd_content a)) (upd_userId a) = Some enc"
    and "upd_tags a = None" and "update_error j = None"
  shows "journal_entries (fst (updateJournalEntry j a s)) =
     map (apply_update a enc None) (journal_entries s)"
  using assms by (simp add: updateJournalEntry_def Let_def split: prod.split)


lemma demo_decrypt:
  "decrypt demo_fetch_env ''enc:hello'' u = Some ''hello''"
  "decrypt demo_fetch_env ''enc:day one'' u = Some ''day one''"
  "decrypt demo_fetch_env ''corrupted'' u = None"
  by (simp_all add: demo_fetch_env_def demo_journal_def)

theorem fetch_falls_back_per_entry_witness:
  "snd (fetchJournalEntries demo_fetch_env ''u1'') =
     Inr [\<lparr>entry_id = ''e1'', content = ''hello'', title = ''day one'', source = ''web'',
           timestamp = 2000, entry_date = ''2024-01-02'', user_id = ''u1'', tags = [''a''],
           photos = [''https://cdn.example/u1/e1/a.png'']\<rparr>,
          \<lparr>entry_id = ''e2'', content = ''corrupted'', title = ''enc:day two'',
           source = ''sms'', timestamp = 1000, entry_date = ''2024-01-01'',
           user_id = ''u1'', tags = [], photos = []\<rparr>]"
proof -
  have user: "''u1'' \<noteq> []"
    by simp
  have query: "select_journal_entries demo_fetch_env ''u1'' = Inr demo_rows"
    by (simp add: demo_fetch_env_def)
  have url: "getPublicUrl demo_fetch_env path = ''https://cdn.example/'' @ path" for path
    by (simp add: demo_fetch_env_def demo_journal_def)
  show ?thesis
    using fetch_falls_back_per_entry [OF user query]
    by (simp add: demo_rows_def shown_entry_def to_entry_def photo_urls_def demo_decrypt url)
qed

theorem fetch_without_user_witness:
  "fetchJournalEntries demo_fetch_env [] = ([], Inr []) \<and>
   fst (fetchJournalEntries demo_fetch_env ''u1'') \<noteq> []"
  using fetch_without_user [of demo_fetch_env]
  by (simp add: fetchJournalEntries_def demo_fetch_env_def Let_def)

theorem signOut_clears_local_state_witness:
  "signOut demo_client signed_in =
     ([SetSession None, SetUser None, AuthSignOut],
      \<lparr>user = None, session = None, loading = False\<rparr>, \<lparr>so_error = None\<rparr>)"
  using signOut_clears_local_state [of demo_client signed_in]
  by (simp add: signed_in_def)

lemma demo_update_written:
  "journal_entries (fst (updateJournalEntry demo_journal demo_update demo_store)) =
     [\<lparr>row_id = ''e1'', row_user_id = ''u1'', row_content = ''enc:rewritten'',
       row_title = ''enc:day one'', row_source = ''web'', row_created_at = 2000,
       row_entry_date = ''2024-01-02'', row_tags = Some [''a'']\<rparr>,
      \<lparr>row_id = ''e2'', row_user_id = ''u2'', row_content = ''enc:other'',
       row_title = ''enc:theirs'', row_source = ''sms'', row_created_at = 1000,
       row_entry_date = ''2024-01-01'', row_tags = None\<rparr>]"
proof -
  have valid: "validateEntryContent demo_journal (upd_content demo_update) = None"
    by (simp add: demo_journal_def demo_update_def)
  have enc: "encrypt demo_journal (trim (upd_content demo_update)) (upd_userId demo_update) =
      Some ''enc:rewritten''"
    by (simp add: demo_journal_def demo_update_def trim_def is_space_def)
  have tags: "upd_tags demo_update = None"
    by (simp add: demo_update_def)
  have db: "update_error demo_journal = None"
    by (simp add: demo_journal_def)
  have "journal_entries (fst (updateJournalEntry demo_journal demo_update demo_store)) =
      map (apply_update demo_update ''enc:rewritten'' None) (journal_entries demo_store)"
    by (rule update_written [OF valid enc tags db])
  also have "\<dots> =
     [\<lparr>row_id = ''e1'', row_user_id = ''u1'', row_content = ''enc:rewritten'',
       row_title = ''enc:day one'', row_source = ''web'', row_created_at = 2000,
       row_entry_date = ''2024-01-02'', row_tags = Some [''a'']\<rparr>,
      \<lparr>row_id = ''e2'', row_user_id = ''u2'', row_content = ''enc:other'',
       row_title = ''enc:theirs'', row_source = ''sms'', row_created_at = 1000,
       row_entry_date = ''2024-01-01'', row_tags = None\<rparr>]"
    by (simp add: demo_store_def apply_update_def demo_update_def)
  finally show ?thesis .
qed

theorem update_changes_content_and_tags_only_witness:
  "map row_entry_date
     (journal_entries (fst (updateJournalEntry demo_journal demo_update demo_store))) =
     [''2024-01-02'', ''2024-01-01''] \<and>
   map stable_part
     (journal_entries (fst (updateJournalEntry demo_journal demo_update demo_store))) =
     map stable_part (journal_entries demo_store) \<and>
   map row_content
     (journal_entries (fst (updateJournalEntry demo_journal demo_update demo_store))) =
     [''enc:rewritten'', ''enc:other'']"
  using update_changes_content_and_tags_only [of demo_journal demo_update demo_store]
  by (simp add: demo_update_written)

end
